theory Spec2Isabelle
  imports Main
begin

section \<open>Syntax trees\<close>

text \<open>
  The passes of \<^verbatim>\<open>action.ts\<close> and of its later variant rewrite the syntax tree that the
  TypeScript compiler API builds for a declaration file. A node is modelled by its kind
  and the children that \<^verbatim>\<open>ts.visitEachChild\<close> walks. Tokens that no pass inspects or
  rewrites (identifiers, modifiers, the question token, the literal inside a literal type,
  decorators) are kept as plain attributes: every visitor of the program returns such a
  token as it got it. Optional fields (\<^verbatim>\<open>modifiers\<close>, \<^verbatim>\<open>typeParameters\<close>, ...) are
  \<open>option\<close>s, \<open>None\<close> standing for \<^verbatim>\<open>undefined\<close>. Every node kind that the program never
  tests for is an \<open>OtherNode\<close> with its kind name and its children.

  The functions of \<^verbatim>\<open>ts.factory\<close> (\<^verbatim>\<open>updateUnionTypeNode\<close>, \<^verbatim>\<open>createIntersectionTypeNode\<close>,
  \<^verbatim>\<open>updateInterfaceDeclaration\<close>, ...) are the constructors of \<open>node\<close>: a node is built from
  the fields it is given. Parentheses that the compiler's factory or printer may put back
  around an operand are not part of the model.
\<close>

datatype keyword =
    StringKeyword | UnknownKeyword | NumberKeyword | BooleanKeyword
  | AnyKeyword | NullKeyword | ObjectKeyword | NeverKeyword

datatype modifier =
    ExportKeyword | DeclareKeyword | DefaultKeyword | ReadonlyKeyword | AbstractKeyword

datatype literal =
    StringLiteral string | NumericLiteral string | TrueLiteral | FalseLiteral | NullLiteral

type_synonym decorator = string

datatype node =
    Keyword keyword
  | LiteralType literal
  | UnionType "node list"
  | IntersectionType "node list"
  | ParenthesizedType node
  | TypeLiteral "node list"
  | ArrayType node
  | TypeReference string "node list option"
  | Parameter string "node option"
  | IndexSignature "decorator list option" "modifier list option" "node list" node
  | PropertySignature "modifier list option" string bool "node option"
  | TypeAliasDeclaration "decorator list option" "modifier list option" string
      "node list option" node
  | InterfaceDeclaration "decorator list option" "modifier list option" string
      "node list option" "node list option" "node list"
  | SourceFile "node list"
  | OtherNode string "node list"

fun isSourceFile :: "node \<Rightarrow> bool" where
  "isSourceFile (SourceFile ss) = True"
| "isSourceFile n = False"

fun isUnionTypeNode :: "node \<Rightarrow> bool" where
  "isUnionTypeNode (UnionType ts) = True"
| "isUnionTypeNode n = False"

fun isTypeAliasDeclaration :: "node \<Rightarrow> bool" where
  "isTypeAliasDeclaration (TypeAliasDeclaration d m nm tp t) = True"
| "isTypeAliasDeclaration n = False"

fun isInterfaceDeclaration :: "node \<Rightarrow> bool" where
  "isInterfaceDeclaration (InterfaceDeclaration d m nm tp h ms) = True"
| "isInterfaceDeclaration n = False"

fun isTypeLiteralNode :: "node \<Rightarrow> bool" where
  "isTypeLiteralNode (TypeLiteral ms) = True"
| "isTypeLiteralNode n = False"

text \<open>The child nodes of a node, in the order in which \<^verbatim>\<open>ts.visitEachChild\<close> visits them.\<close>

fun optNodes :: "node list option \<Rightarrow> node list" where
  "optNodes None = []"
| "optNodes (Some ns) = ns"

fun optNode :: "node option \<Rightarrow> node list" where
  "optNode None = []"
| "optNode (Some n) = [n]"

fun children :: "node \<Rightarrow> node list" where
  "children (Keyword k) = []"
| "children (LiteralType l) = []"
| "children (UnionType ts) = ts"
| "children (IntersectionType ts) = ts"
| "children (ParenthesizedType t) = [t]"
| "children (TypeLiteral ms) = ms"
| "children (ArrayType t) = [t]"
| "children (TypeReference nm targs) = optNodes targs"
| "children (Parameter nm t) = optNode t"
| "children (IndexSignature d m ps t) = ps @ [t]"
| "children (PropertySignature m nm q t) = optNode t"
| "children (TypeAliasDeclaration d m nm tp t) = optNodes tp @ [t]"
| "children (InterfaceDeclaration d m nm tp h ms) = optNodes tp @ optNodes h @ ms"
| "children (SourceFile ss) = ss"
| "children (OtherNode k cs) = cs"

text \<open>
  \<^verbatim>\<open>ts.visitEachChild(node, visitor, ctx)\<close> for a visitor that always returns a node:
  the node is rebuilt with the same kind and attributes, every child replaced by what the
  visitor returns for it. A token has no children and is returned as it is.
\<close>

fun visitEachChild :: "(node \<Rightarrow> node) \<Rightarrow> node \<Rightarrow> node" where
  "visitEachChild f (Keyword k) = Keyword k"
| "visitEachChild f (LiteralType l) = LiteralType l"
| "visitEachChild f (UnionType ts) = UnionType (map f ts)"
| "visitEachChild f (IntersectionType ts) = IntersectionType (map f ts)"
| "visitEachChild f (ParenthesizedType t) = ParenthesizedType (f t)"
| "visitEachChild f (TypeLiteral ms) = TypeLiteral (map f ms)"
| "visitEachChild f (ArrayType t) = ArrayType (f t)"
| "visitEachChild f (TypeReference nm targs) = TypeReference nm (map_option (map f) targs)"
| "visitEachChild f (Parameter nm t) = Parameter nm (map_option f t)"
| "visitEachChild f (IndexSignature d m ps t) = IndexSignature d m (map f ps) (f t)"
| "visitEachChild f (PropertySignature m nm q t) = PropertySignature m nm q (map_option f t)"
| "visitEachChild f (TypeAliasDeclaration d m nm tp t) =
     TypeAliasDeclaration d m nm (map_option (map f) tp) (f t)"
| "visitEachChild f (InterfaceDeclaration d m nm tp h ms) =
     InterfaceDeclaration d m nm (map_option (map f) tp) (map_option (map f) h) (map f ms)"
| "visitEachChild f (SourceFile ss) = SourceFile (map f ss)"
| "visitEachChild f (OtherNode k cs) = OtherNode k (map f cs)"

text \<open>
  The node array of a union or intersection under a visitor that may return
  \<^verbatim>\<open>undefined\<close> (\<open>None\<close>): such an element is dropped from the array.
\<close>

fun visitNodes :: "(node \<Rightarrow> node option) \<Rightarrow> node list \<Rightarrow> node list" where
  "visitNodes f [] = []"
| "visitNodes f (n # ns) = (case f n of None \<Rightarrow> visitNodes f ns | Some n' \<Rightarrow> n' # visitNodes f ns)"

lemma map_optNodes_cong:
  "(\<And>c. c \<in> set (optNodes x) \<Longrightarrow> f c = g c) \<Longrightarrow> map_option (map f) x = map_option (map g) x"
  by (cases x) auto

lemma map_optNode_cong:
  "(\<And>c. c \<in> set (optNode x) \<Longrightarrow> f c = g c) \<Longrightarrow> map_option f x = map_option g x"
  by (cases x) auto

lemma visitEachChild_cong [fundef_cong]:
  "n = m \<Longrightarrow> (\<And>c. c \<in> set (children m) \<Longrightarrow> f c = g c) \<Longrightarrow> visitEachChild f n = visitEachChild g m"
  by (cases m) (auto intro: map_optNodes_cong map_optNode_cong)

lemma visitNodes_cong [fundef_cong]:
  "ns = ms \<Longrightarrow> (\<And>c. c \<in> set ms \<Longrightarrow> f c = g c) \<Longrightarrow> visitNodes f ns = visitNodes g ms"
  by (induction ms arbitrary: ns) (auto split: option.splits)

lemma size_in_list: "c \<in> set ns \<Longrightarrow> size c \<le> size_list size ns"
  by (induction ns) auto

lemma size_in_optNodes: "c \<in> set (optNodes x) \<Longrightarrow> size c \<le> size_option (size_list size) x"
  by (cases x) (auto dest: size_in_list)

lemma size_in_optNode: "c \<in> set (optNode x) \<Longrightarrow> size c \<le> size_option size x"
  by (cases x) auto

lemma size_child [termination_simp]: "c \<in> set (children n) \<Longrightarrow> size c < size n"
  by (cases n) (auto dest: size_in_list size_in_optNodes size_in_optNode)


section \<open>The rewrite passes\<close>

text \<open>
  There are two copies of the script: \<^verbatim>\<open>action.ts\<close> and a later one, which adds
  \<^verbatim>\<open>attachSchemaPropToTopLevel\<close> and \<^verbatim>\<open>unionsToIntersections\<close>. A pass that differs
  between the two takes the copy as a parameter. The transformation context \<^verbatim>\<open>ctx\<close>
  carries nothing that a pass reads and is left out.
\<close>

datatype variant = ActionTs | LaterScript

subsection \<open>attachSchemaPropToTopLevel\<close>

definition schemaProp :: node where
  "schemaProp =
     PropertySignature None ''$schema'' True
       (Some (LiteralType (StringLiteral ''https://json.schemastore.org/tsconfig.json'')))"

fun attachSchemaProp_visitor :: "node \<Rightarrow> node" where
  "attachSchemaProp_visitor (InterfaceDeclaration d m nm tp h members) =
     (if nm = ''CompilerOptionsDefinition''
      then InterfaceDeclaration d m nm tp h (schemaProp # members)
      else InterfaceDeclaration d m nm tp h members)"
| "attachSchemaProp_visitor statement = statement"

definition attachSchemaPropToTopLevel :: "node \<Rightarrow> node" where
  "attachSchemaPropToTopLevel sourceFile = visitEachChild attachSchemaProp_visitor sourceFile"

subsection \<open>unionsToIntersections\<close>

fun unionsToIntersections :: "node \<Rightarrow> node"
  and unionsToIntersections_visitor :: "node \<Rightarrow> node" where
  "unionsToIntersections node = visitEachChild unionsToIntersections_visitor node"
| "unionsToIntersections_visitor (UnionType types) =
     IntersectionType (map unionsToIntersections types)"
| "unionsToIntersections_visitor child = unionsToIntersections child"


subsection \<open>The root-renaming pass\<close>

text \<open>
  \<^verbatim>\<open>renameTsconfigTypeAndRemoveOtherExports\<close> of \<^verbatim>\<open>action.ts\<close> passes the alias's type on as
  it is; \<^verbatim>\<open>renameTsconfigTypeForceIntersectionsRemoveOtherExports\<close> of the later script
  passes \<^verbatim>\<open>unionsToIntersections(ctx)(statement.type)\<close>.
\<close>

fun rename_visitor :: "variant \<Rightarrow> node \<Rightarrow> node" where
  "rename_visitor v (TypeAliasDeclaration d m nm tp t) =
     TypeAliasDeclaration d m ''Tsconfig'' tp
       (case v of ActionTs \<Rightarrow> t | LaterScript \<Rightarrow> unionsToIntersections t)"
| "rename_visitor v (InterfaceDeclaration d m nm tp h members) =
     InterfaceDeclaration d (map_option (filter (\<lambda>modifier. modifier = ExportKeyword)) m)
       nm tp h members"
| "rename_visitor v statement = statement"

definition renameTsconfigTypeAndRemoveOtherExports :: "node \<Rightarrow> node" where
  "renameTsconfigTypeAndRemoveOtherExports sourceFile =
     visitEachChild (rename_visitor ActionTs) sourceFile"

definition renameTsconfigTypeForceIntersectionsRemoveOtherExports :: "node \<Rightarrow> node" where
  "renameTsconfigTypeForceIntersectionsRemoveOtherExports sourceFile =
     visitEachChild (rename_visitor LaterScript) sourceFile"

text \<open>The root-renaming pass of each copy of the script.\<close>

definition rootRenamingPass :: "variant \<Rightarrow> node \<Rightarrow> node" where
  "rootRenamingPass v =
     (case v of
        ActionTs \<Rightarrow> renameTsconfigTypeAndRemoveOtherExports
      | LaterScript \<Rightarrow> renameTsconfigTypeForceIntersectionsRemoveOtherExports)"

subsection \<open>removeStringMergedWithStringLiterals\<close>

fun isStringLiteral :: "literal \<Rightarrow> bool" where
  "isStringLiteral (StringLiteral s) = True"
| "isStringLiteral l = False"

fun intersectsWithStringLiteral :: "node \<Rightarrow> bool" where
  "intersectsWithStringLiteral (LiteralType l) = isStringLiteral l"
| "intersectsWithStringLiteral (UnionType types) = list_ex intersectsWithStringLiteral types"
| "intersectsWithStringLiteral (IntersectionType types) =
     list_ex intersectsWithStringLiteral types"
| "intersectsWithStringLiteral (ParenthesizedType t) = intersectsWithStringLiteral t"
| "intersectsWithStringLiteral node = False"

fun removeWideStrings :: "node \<Rightarrow> node" where
  "removeWideStrings (IntersectionType types) =
     IntersectionType (visitNodes
       (\<lambda>child. if child = Keyword StringKeyword then None else Some (removeWideStrings child))
       types)"
| "removeWideStrings (UnionType types) =
     UnionType (visitNodes
       (\<lambda>child. if child = Keyword StringKeyword then None else Some (removeWideStrings child))
       types)"
| "removeWideStrings (ParenthesizedType t) = removeWideStrings t"
| "removeWideStrings node = node"

lemma size_visitNodes:
  "(\<And>c c'. c \<in> set ns \<Longrightarrow> f c = Some c' \<Longrightarrow> size c' \<le> size c) \<Longrightarrow>
   size_list size (visitNodes f ns) \<le> size_list size ns"
proof (induction ns)
  case Nil
  show ?case by simp
next
  case (Cons n ns)
  have rest: "size_list size (visitNodes f ns) \<le> size_list size ns"
    using Cons by simp
  show ?case
  proof (cases "f n")
    case None
    with rest show ?thesis by simp
  next
    case (Some n')
    with Cons.prems [of n n'] have "size n' \<le> size n" by simp
    with rest Some show ?thesis by simp
  qed
qed

lemma size_removeWideStrings [termination_simp]: "size (removeWideStrings n) \<le> size n"
proof (induction n rule: removeWideStrings.induct)
  case (1 types)
  have "size_list size (visitNodes
      (\<lambda>child. if child = Keyword StringKeyword then None else Some (removeWideStrings child))
      types) \<le> size_list size types"
    by (rule size_visitNodes) (use 1 in \<open>auto split: if_splits\<close>)
  then show ?case by simp
next
  case (2 types)
  have "size_list size (visitNodes
      (\<lambda>child. if child = Keyword StringKeyword then None else Some (removeWideStrings child))
      types) \<le> size_list size types"
    by (rule size_visitNodes) (use 2 in \<open>auto split: if_splits\<close>)
  then show ?case by simp
qed auto

function removeStringMergedWithStringLiterals :: "node \<Rightarrow> node"
  and removeStringMerged_visitor :: "node \<Rightarrow> node" where
  "removeStringMergedWithStringLiterals node =
     visitEachChild removeStringMerged_visitor node"
| "removeStringMerged_visitor child =
     (if intersectsWithStringLiteral child
      then removeStringMergedWithStringLiterals (removeWideStrings child)
      else removeStringMergedWithStringLiterals child)"
  by pat_completeness auto
termination
proof (relation "measure (\<lambda>x. case x of Inl n \<Rightarrow> 2 * size n | Inr c \<Rightarrow> 2 * size c + 1)")
  show "wf (measure (\<lambda>x. case x of Inl n \<Rightarrow> 2 * size n | Inr c \<Rightarrow> 2 * size c + 1))"
    by simp
next
  fix node c :: node
  assume "c \<in> set (children node)"
  then have "size c < size node" by (rule size_child)
  then show "(Inr c, Inl node) \<in> measure (\<lambda>x. case x of Inl n \<Rightarrow> 2 * size n | Inr c \<Rightarrow> 2 * size c + 1)"
    by simp
next
  fix child :: node
  have "size (removeWideStrings child) \<le> size child" by (rule size_removeWideStrings)
  then show "(Inl (removeWideStrings child), Inr child) \<in> measure (\<lambda>x. case x of Inl n \<Rightarrow> 2 * size n | Inr c \<Rightarrow> 2 * size c + 1)"
    by simp
next
  fix child :: node
  show "(Inl child, Inr child) \<in> measure (\<lambda>x. case x of Inl n \<Rightarrow> 2 * size n | Inr c \<Rightarrow> 2 * size c + 1)"
    by simp
qed


subsection \<open>removeStandaloneUnknownRecsInUnions\<close>

text \<open>
  The \<^verbatim>\<open>type\<close> of an element of a \<^verbatim>\<open>parameters\<close> array (a \<^verbatim>\<open>ParameterDeclaration\<close> by its
  TypeScript type).
\<close>

fun parameterType :: "node \<Rightarrow> node option" where
  "parameterType (Parameter nm t) = t"
| "parameterType n = None"

text \<open>The callback of \<^verbatim>\<open>node.types.filter\<close>: whether a member of a union is kept.\<close>

fun keepInUnion :: "node \<Rightarrow> bool" where
  "keepInUnion (TypeLiteral members) =
     (if length members = 1
      then (case hd members of
              IndexSignature d m parameters t \<Rightarrow>
                \<not> (length parameters = 1 \<and>
                   parameterType (hd parameters) = Some (Keyword StringKeyword))
            | firstMember \<Rightarrow> True)
      else True)"
| "keepInUnion type = True"

function (sequential) removeStandaloneUnknownRecsInUnions :: "node \<Rightarrow> node" where
  "removeStandaloneUnknownRecsInUnions (UnionType types) =
     UnionType (map (\<lambda>type. visitEachChild removeStandaloneUnknownRecsInUnions type)
                 (filter keepInUnion types))"
| "removeStandaloneUnknownRecsInUnions node =
     visitEachChild removeStandaloneUnknownRecsInUnions node"
  by pat_completeness auto
termination
proof (relation "measure size", goal_cases)
  case 1
  show ?case by simp
next
  case (2 types type c)
  then show ?case
    using size_child [of c type] size_in_list [of type types] by simp
qed (simp_all only: in_measure size_child)

subsection \<open>removeUnknownIndexSignatures\<close>

text \<open>
  The test of the \<^verbatim>\<open>reduce\<close> callback on the member \<open>cur\<close> at index \<open>i\<close>:
  an index signature whose first parameter has type \<^verbatim>\<open>string\<close>, whose value type is
  \<^verbatim>\<open>unknown\<close>, and which has a neighbour (\<^verbatim>\<open>members[i - 1] || members[i + 1]\<close>; an index
  out of range reads \<^verbatim>\<open>undefined\<close>).
\<close>

fun isStringUnknownIndexSignature :: "node \<Rightarrow> bool" where
  "isStringUnknownIndexSignature (IndexSignature d m parameters t) =
     ((case parameters of [] \<Rightarrow> False
        | p # ps \<Rightarrow> parameterType p = Some (Keyword StringKeyword))
      \<and> t = Keyword UnknownKeyword)"
| "isStringUnknownIndexSignature cur = False"

definition hasNeighbour :: "node list \<Rightarrow> nat \<Rightarrow> bool" where
  "hasNeighbour members i \<longleftrightarrow> 0 < i \<or> Suc i < length members"

text \<open>
  The visitor rebuilds an interface declaration or a type literal from the members that
  the \<^verbatim>\<open>reduce\<close> keeps. \<^verbatim>\<open>action.ts\<close> calls
  \<^verbatim>\<open>updateInterfaceDeclaration(child, undefined, undefined, child.name, undefined, undefined, nextMembers)\<close>,
  the later script passes the declaration's own decorators, modifiers, type parameters and
  heritage clauses.
\<close>

function removeUnknownIndexSignatures :: "variant \<Rightarrow> node \<Rightarrow> node"
  and removeUnknownIndexSignatures_visitor :: "variant \<Rightarrow> node \<Rightarrow> node"
  and removeUnknownIndexSignatures_reduce :: "variant \<Rightarrow> node list \<Rightarrow> node list" where
  "removeUnknownIndexSignatures v node =
     visitEachChild (removeUnknownIndexSignatures_visitor v) node"
| "removeUnknownIndexSignatures_reduce v members =
     foldl (\<lambda>acc (i, cur).
              if isStringUnknownIndexSignature cur \<and> hasNeighbour members i then acc
              else acc @ [removeUnknownIndexSignatures v cur])
       [] (zip [0..<length members] members)"
| "removeUnknownIndexSignatures_visitor v child =
     (case child of
        InterfaceDeclaration d m nm tp h members \<Rightarrow>
          (case v of
             ActionTs \<Rightarrow>
               InterfaceDeclaration None None nm None None
                 (removeUnknownIndexSignatures_reduce v members)
           | LaterScript \<Rightarrow>
               InterfaceDeclaration d m nm tp h
                 (removeUnknownIndexSignatures_reduce v members))
      | TypeLiteral members \<Rightarrow> TypeLiteral (removeUnknownIndexSignatures_reduce v members)
      | _ \<Rightarrow> removeUnknownIndexSignatures v child)"
  by pat_completeness auto
termination
proof (relation "measure (\<lambda>x. case x of
      Inl (v, n) \<Rightarrow> 3 * size n
    | Inr (Inl (v, c)) \<Rightarrow> 3 * size c + 2
    | Inr (Inr (v, ms)) \<Rightarrow> 3 * size_list size ms + 1)", goal_cases)
  case 1
  show ?case by simp
next
  case (2 v node c)
  then show ?case using size_child [of c node] by simp
next
  case (3 v members acc x i cur)
  then have "cur \<in> set members" by (auto dest: set_zip_rightD)
  then show ?case using size_in_list [of cur members] by simp
qed simp_all


section \<open>The pipeline\<close>

text \<open>\<^verbatim>\<open>throw new Error()\<close> and \<^verbatim>\<open>throw new Error("...")\<close>, with the message.\<close>

datatype error = Error string

fun getTransformerFactories :: "variant \<Rightarrow> (node \<Rightarrow> node) list" where
  "getTransformerFactories ActionTs =
     [renameTsconfigTypeAndRemoveOtherExports,
      removeStandaloneUnknownRecsInUnions,
      removeStringMergedWithStringLiterals,
      removeUnknownIndexSignatures ActionTs]"
| "getTransformerFactories LaterScript =
     [attachSchemaPropToTopLevel,
      renameTsconfigTypeForceIntersectionsRemoveOtherExports,
      removeStandaloneUnknownRecsInUnions,
      removeStringMergedWithStringLiterals,
      removeUnknownIndexSignatures LaterScript]"

text \<open>
  The \<^verbatim>\<open>reduce\<close> of \<^verbatim>\<open>transformer\<close>: each pass is applied to the result so far, and a
  result that is not a source file throws, which ends the \<^verbatim>\<open>reduce\<close>.
\<close>

fun transformer_reduce :: "(node \<Rightarrow> node) list \<Rightarrow> node \<Rightarrow> error + node" where
  "transformer_reduce [] result = Inr result"
| "transformer_reduce (transform # rest) result =
     (let nextResult = transform result in
      if \<not> isSourceFile nextResult then Inl (Error [])
      else transformer_reduce rest nextResult)"

definition transformer :: "variant \<Rightarrow> node \<Rightarrow> error + node" where
  "transformer v sourceFile = transformer_reduce (getTransformerFactories v) sourceFile"

section \<open>The end of \<^verbatim>\<open>main\<close>: checksum, output file, release\<close>

text \<open>
  What \<^verbatim>\<open>main\<close> does once the formatted source is there, as the list of its effects on
  the file system and of the commands it runs, in order, and the error it throws, if any.
  The MD5 digest is a parameter. Writes and commands are taken to succeed. In the
  command lines \<open>CHR 0x22\<close> is the double quote, \<open>CHR 0x27\<close> the closing apostrophe, and
  the en dash of the commit message is its three UTF-8 bytes.
\<close>

datatype effect =
    WriteChecksum string
  | WriteTheType string
  | ExecSync string
  | StandardVersion

fun releaseCommands :: "variant \<Rightarrow> effect list" where
  "releaseCommands ActionTs =
     [ExecSync ''git add .'',
      ExecSync (''git commit -m 'feat: unknown '' @ [CHR 0xE2, CHR 0x80, CHR 0x93]
                @ '' regenerating from schemastore.org'' @ [CHR 0x27]),
      StandardVersion,
      ExecSync ''git push --follow-tags origin main && npm publish'']"
| "releaseCommands LaterScript =
     [ExecSync (''git config --global user.email '' @ [CHR 0x22]
                @ ''harrysolovay@gmail.com'' @ [CHR 0x22]),
      ExecSync (''git config --global user.name '' @ [CHR 0x22]
                @ ''Harry Solovay'' @ [CHR 0x22]),
      ExecSync ''git add .'',
      ExecSync (''git commit -m 'chore: unknown '' @ [CHR 0xE2, CHR 0x80, CHR 0x93]
                @ '' regenerating from schemastore.org'' @ [CHR 0x27]),
      StandardVersion,
      ExecSync ''git push --follow-tags origin main'']"

definition main_release ::
  "variant \<Rightarrow> (string \<Rightarrow> string) \<Rightarrow> bool \<Rightarrow> string \<Rightarrow> string \<Rightarrow> effect list \<times> error option" where
  "main_release v md5 devMode previousChecksum transformedSourceFormatted =
     (case (if \<not> devMode
            then (let checksum = md5 transformedSourceFormatted in
                  if checksum = previousChecksum
                  then Inl (Error ''Already released this version.'')
                  else Inr [WriteChecksum checksum])
            else Inr [])
      of Inl e \<Rightarrow> ([], Some e)
       | Inr written \<Rightarrow>
           (let effects = written @ [WriteTheType transformedSourceFormatted] in
            if \<not> devMode then (effects @ releaseCommands v, None) else (effects, None)))"


section \<open>Notions used to state the properties\<close>

text \<open>
  A tree is \<open>unionFree\<close> when no node of it is a union type. \<open>noUnionInUnion\<close>: no union
  type has a union type as a direct member (in parsed source a union inside a union is
  parenthesized).
\<close>

fun unionFree :: "node \<Rightarrow> bool" where
  "unionFree n \<longleftrightarrow> \<not> isUnionTypeNode n \<and> list_all unionFree (children n)"

fun noUnionInUnion :: "node \<Rightarrow> bool" where
  "noUnionInUnion n \<longleftrightarrow>
     (isUnionTypeNode n \<longrightarrow> list_all (\<lambda>t. \<not> isUnionTypeNode t) (children n))
     \<and> list_all noUnionInUnion (children n)"

declare unionFree.simps [simp del] noUnionInUnion.simps [simp del]

text \<open>
  The rewriting as the specification words it: every union type of the tree becomes an
  intersection type of its rewritten members.
\<close>

function (sequential) allUnionsToIntersections :: "node \<Rightarrow> node" where
  "allUnionsToIntersections (UnionType types) =
     IntersectionType (map allUnionsToIntersections types)"
| "allUnionsToIntersections n = visitEachChild allUnionsToIntersections n"
  by pat_completeness auto
termination
proof (relation "measure size", goal_cases)
  case 1
  show ?case by simp
next
  case (2 types t)
  then show ?case using size_in_list [of t types] by simp
qed (simp_all only: in_measure size_child)

section \<open>The pipeline fails exactly when a pass returns something else than a source file\<close>

text \<open>The passes applied one after the other, without the check in between.\<close>

abbreviation applyPasses :: "(node \<Rightarrow> node) list \<Rightarrow> node \<Rightarrow> node" where
  "applyPasses ps n \<equiv> foldl (\<lambda>result transform. transform result) n ps"

lemma all_less_Cons:
  "(\<forall>k<length (p # rest). Q (take (Suc k) (p # rest))) \<longleftrightarrow>
   Q [p] \<and> (\<forall>k<length rest. Q (p # take (Suc k) rest))"
proof
  assume l: "\<forall>k<length (p # rest). Q (take (Suc k) (p # rest))"
  from l [rule_format, of 0] have "Q [p]" by simp
  moreover have "\<forall>k<length rest. Q (p # take (Suc k) rest)"
  proof (intro allI impI)
    fix k assume "k < length rest"
    with l [rule_format, of "Suc k"] show "Q (p # take (Suc k) rest)" by simp
  qed
  ultimately show "Q [p] \<and> (\<forall>k<length rest. Q (p # take (Suc k) rest))" ..
next
  assume r: "Q [p] \<and> (\<forall>k<length rest. Q (p # take (Suc k) rest))"
  show "\<forall>k<length (p # rest). Q (take (Suc k) (p # rest))"
  proof (intro allI impI)
    fix k assume k: "k < length (p # rest)"
    show "Q (take (Suc k) (p # rest))"
    proof (cases k)
      case 0
      with r show ?thesis by simp
    next
      case (Suc j)
      with k have "j < length rest" by simp
      with r have "Q (p # take (Suc j) rest)" by blast
      with Suc show ?thesis by simp
    qed
  qed
qed

lemma transformer_reduce_char:
  "transformer_reduce ps sf =
     (if \<forall>k<length ps. isSourceFile (applyPasses (take (Suc k) ps) sf)
      then Inr (applyPasses ps sf)
      else Inl (Error []))"
proof (induction ps arbitrary: sf)
  case Nil
  show ?case by simp
next
  case (Cons p rest)
  have "(\<forall>k<length (p # rest). isSourceFile (applyPasses (take (Suc k) (p # rest)) sf)) \<longleftrightarrow>
        isSourceFile (applyPasses [p] sf) \<and>
        (\<forall>k<length rest. isSourceFile (applyPasses (p # take (Suc k) rest) sf))"
    by (rule all_less_Cons [where Q = "\<lambda>qs. isSourceFile (applyPasses qs sf)"])
  then show ?case
    using Cons.IH [of "p sf"] by (simp add: Let_def)
qed

lemma applyPasses_last:
  assumes "\<forall>k<length ps. isSourceFile (applyPasses (take (Suc k) ps) sf)"
    and "isSourceFile sf"
  shows "isSourceFile (applyPasses ps sf)"
proof (cases ps rule: rev_cases)
  case Nil
  with assms(2) show ?thesis by simp
next
  case (snoc qs q)
  with assms(1) [rule_format, of "length qs"] show ?thesis by simp
qed

text \<open>
  C8. \<^verbatim>\<open>transformer\<close> runs the \<^verbatim>\<open>reduce\<close> over the list of \<^verbatim>\<open>getTransformerFactories\<close>.
  Whatever the passes \<open>ps\<close> are, the \<^verbatim>\<open>reduce\<close> throws if and only if some pass of the
  sequence returns a node that is not a source file (pass number \<open>k\<close> returns
  \<open>applyPasses (take (Suc k) ps) sourceFile\<close>). When every pass returns a source file the
  \<^verbatim>\<open>reduce\<close> returns, without error, the result of the last pass, and that result is a
  source file (for a pipeline of no pass that is the source file it was given). The
  check is made after every pass.
\<close>

theorem transformer_throws_iff_some_pass_not_source_file:
  "transformer v sourceFile = transformer_reduce (getTransformerFactories v) sourceFile
   \<and> ((\<exists>e. transformer_reduce ps sourceFile = Inl e) \<longleftrightarrow>
        (\<exists>k<length ps. \<not> isSourceFile (applyPasses (take (Suc k) ps) sourceFile)))
   \<and> ((\<forall>k<length ps. isSourceFile (applyPasses (take (Suc k) ps) sourceFile)) \<longrightarrow>
        transformer_reduce ps sourceFile = Inr (applyPasses ps sourceFile)
        \<and> (isSourceFile sourceFile \<longrightarrow> isSourceFile (applyPasses ps sourceFile)))"
  using applyPasses_last [of ps sourceFile]
  by (auto simp: transformer_reduce_char transformer_def)


theorem transformer_throws_iff_some_pass_not_source_file_witness:
  "isSourceFile (SourceFile [])
   \<and> transformer_reduce (getTransformerFactories ActionTs) (SourceFile []) = Inr (SourceFile [])
   \<and> isSourceFile (applyPasses (getTransformerFactories ActionTs) (SourceFile []))
   \<and> (\<exists>k<length [\<lambda>n. Keyword AnyKeyword].
         \<not> isSourceFile (applyPasses (take (Suc k) [\<lambda>n. Keyword AnyKeyword]) (SourceFile [])))
   \<and> (\<exists>e. transformer_reduce [\<lambda>n. Keyword AnyKeyword] (SourceFile []) = Inl e)"
proof -
  have h: "\<forall>k<length (getTransformerFactories ActionTs).
      isSourceFile (applyPasses (take (Suc k) (getTransformerFactories ActionTs)) (SourceFile []))"
    by (simp add: All_less_Suc renameTsconfigTypeAndRemoveOtherExports_def)
  have e: "\<exists>k<length [\<lambda>n. Keyword AnyKeyword].
         \<not> isSourceFile (applyPasses (take (Suc k) [\<lambda>n. Keyword AnyKeyword]) (SourceFile []))"
    by simp
  have v: "applyPasses (getTransformerFactories ActionTs) (SourceFile []) = SourceFile []"
    by (simp add: renameTsconfigTypeAndRemoveOtherExports_def)
  show ?thesis
    using h e v
      transformer_throws_iff_some_pass_not_source_file [of ActionTs "SourceFile []" "getTransformerFactories ActionTs"]
      transformer_throws_iff_some_pass_not_source_file [of ActionTs "SourceFile []" "[\<lambda>n. Keyword AnyKeyword]"]
    by simp
qed


section \<open>The passes over the top-level statements\<close>

lemma rootRenamingPass_eq: "rootRenamingPass v n = visitEachChild (rename_visitor v) n"
  by (cases v)
    (simp_all add: rootRenamingPass_def renameTsconfigTypeAndRemoveOtherExports_def
      renameTsconfigTypeForceIntersectionsRemoveOtherExports_def)

text \<open>
  C7. \<^verbatim>\<open>attachSchemaPropToTopLevel\<close> returns a source file with as many statements as it
  got. A top-level interface named \<^verbatim>\<open>CompilerOptionsDefinition\<close> gets one new member in
  front of its own members, which follow unchanged: the optional property \<^verbatim>\<open>$schema\<close>
  whose type is the string literal \<^verbatim>\<open>"https://json.schemastore.org/tsconfig.json"\<close>.
  Every other statement is returned as it is.
\<close>

theorem attachSchemaProp_prepends_schema:
  "isSourceFile (attachSchemaPropToTopLevel (SourceFile statements))
   \<and> length (children (attachSchemaPropToTopLevel (SourceFile statements))) = length statements
   \<and> (\<forall>i<length statements.
         (case statements ! i of
            InterfaceDeclaration d m nm tp h members \<Rightarrow>
              children (attachSchemaPropToTopLevel (SourceFile statements)) ! i =
                (if nm = ''CompilerOptionsDefinition''
                 then InterfaceDeclaration d m nm tp h
                        (PropertySignature None ''$schema'' True
                           (Some (LiteralType
                              (StringLiteral ''https://json.schemastore.org/tsconfig.json'')))
                         # members)
                 else statements ! i)
          | statement \<Rightarrow>
              children (attachSchemaPropToTopLevel (SourceFile statements)) ! i = statement))"
  by (auto simp: attachSchemaPropToTopLevel_def schemaProp_def split: node.splits)

theorem attachSchemaProp_prepends_schema_witness:
  "attachSchemaPropToTopLevel
     (SourceFile
        [TypeAliasDeclaration None (Some [ExportKeyword]) ''Root'' None
           (TypeReference ''CompilerOptionsDefinition'' None),
         InterfaceDeclaration None (Some [ExportKeyword]) ''CompilerOptionsDefinition'' None None
           [PropertySignature None ''files'' True (Some (ArrayType (Keyword StringKeyword)))]]) =
   SourceFile
     [TypeAliasDeclaration None (Some [ExportKeyword]) ''Root'' None
        (TypeReference ''CompilerOptionsDefinition'' None),
      InterfaceDeclaration None (Some [ExportKeyword]) ''CompilerOptionsDefinition'' None None
        [PropertySignature None ''$schema'' True
           (Some (LiteralType (StringLiteral ''https://json.schemastore.org/tsconfig.json''))),
         PropertySignature None ''files'' True (Some (ArrayType (Keyword StringKeyword)))]]"
  using attachSchemaProp_prepends_schema
    [of "[TypeAliasDeclaration None (Some [ExportKeyword]) ''Root'' None
           (TypeReference ''CompilerOptionsDefinition'' None),
         InterfaceDeclaration None (Some [ExportKeyword]) ''CompilerOptionsDefinition'' None None
           [PropertySignature None ''files'' True (Some (ArrayType (Keyword StringKeyword)))]]"]
  by (simp add: attachSchemaPropToTopLevel_def schemaProp_def)

text \<open>
  C5. The root-renaming pass of either copy returns a source file with as many statements
  as it got. A top-level type alias keeps its decorators, modifiers and type parameters
  and is named \<^verbatim>\<open>Tsconfig\<close> (its type is passed on as it is in \<^verbatim>\<open>action.ts\<close>, and through
  \<^verbatim>\<open>unionsToIntersections\<close> in the later script). A top-level interface keeps, of its
  modifiers, exactly the export keywords, and its name, type parameters, heritage clauses
  and members. Any other statement is returned as it is.
\<close>

theorem rootRenaming_statements:
  "isSourceFile (rootRenamingPass v (SourceFile statements))
   \<and> length (children (rootRenamingPass v (SourceFile statements))) = length statements
   \<and> (\<forall>i<length statements.
         (case statements ! i of
            TypeAliasDeclaration d m nm tp t \<Rightarrow>
              children (rootRenamingPass v (SourceFile statements)) ! i =
                TypeAliasDeclaration d m ''Tsconfig'' tp
                  (case v of ActionTs \<Rightarrow> t | LaterScript \<Rightarrow> unionsToIntersections t)
          | InterfaceDeclaration d m nm tp h members \<Rightarrow>
              children (rootRenamingPass v (SourceFile statements)) ! i =
                InterfaceDeclaration d
                  (map_option (filter (\<lambda>modifier. modifier = ExportKeyword)) m) nm tp h members
          | statement \<Rightarrow>
              children (rootRenamingPass v (SourceFile statements)) ! i = statement))"
  by (auto simp: rootRenamingPass_eq split: node.splits)

theorem rootRenaming_statements_witness:
  "renameTsconfigTypeAndRemoveOtherExports
     (SourceFile
        [TypeAliasDeclaration None (Some [ExportKeyword]) ''Root'' None
           (TypeReference ''A'' None),
         InterfaceDeclaration None (Some [ExportKeyword, DeclareKeyword]) ''A'' None None
           [PropertySignature None ''files'' True (Some (ArrayType (Keyword StringKeyword)))],
         OtherNode ''ImportDeclaration'' []]) =
   SourceFile
     [TypeAliasDeclaration None (Some [ExportKeyword]) ''Tsconfig'' None
        (TypeReference ''A'' None),
      InterfaceDeclaration None (Some [ExportKeyword]) ''A'' None None
        [PropertySignature None ''files'' True (Some (ArrayType (Keyword StringKeyword)))],
      OtherNode ''ImportDeclaration'' []]"
  using rootRenaming_statements
    [of ActionTs
      "[TypeAliasDeclaration None (Some [ExportKeyword]) ''Root'' None
           (TypeReference ''A'' None),
         InterfaceDeclaration None (Some [ExportKeyword, DeclareKeyword]) ''A'' None None
           [PropertySignature None ''files'' True (Some (ArrayType (Keyword StringKeyword)))],
         OtherNode ''ImportDeclaration'' []]"]
  by (simp add: renameTsconfigTypeAndRemoveOtherExports_def)

section \<open>The no-op abort of \<^verbatim>\<open>main\<close>\<close>

text \<open>
  C9. Outside development mode, when the checksum of the formatted output equals the stored
  one, \<^verbatim>\<open>main\<close> throws and has no effect at all: it writes neither the checksum record nor
  the type declaration file, and runs no command. When the checksums differ, the checksum
  record is written first, the type declaration file second, and the release commands
  follow.
\<close>

theorem main_release_no_op_abort:
  "(\<not> devMode \<and> md5 formatted = previousChecksum \<longrightarrow>
      main_release v md5 devMode previousChecksum formatted =
        ([], Some (Error ''Already released this version.'')))
   \<and> (\<not> devMode \<and> md5 formatted \<noteq> previousChecksum \<longrightarrow>
      main_release v md5 devMode previousChecksum formatted =
        (WriteChecksum (md5 formatted) # WriteTheType formatted # releaseCommands v, None))"
  by (simp add: main_release_def Let_def)

theorem main_release_no_op_abort_witness:
  "main_release LaterScript (\<lambda>s. rev s) False ''cba'' ''abc'' =
     ([], Some (Error ''Already released this version.''))
   \<and> main_release LaterScript (\<lambda>s. rev s) False ''old'' ''abc'' =
     (WriteChecksum ''cba'' # WriteTheType ''abc'' # releaseCommands LaterScript, None)"
  using main_release_no_op_abort [of False "\<lambda>s. rev s" "''abc''" "''cba''" LaterScript]
    main_release_no_op_abort [of False "\<lambda>s. rev s" "''abc''" "''old''" LaterScript]
  by simp

section \<open>What \<^verbatim>\<open>removeUnknownIndexSignatures\<close> keeps of an interface declaration\<close>

text \<open>
  C10. On \<^verbatim>\<open>export interface PluginList<T> extends Base { name?: string; [k: string]: unknown }\<close>
  the pass of \<^verbatim>\<open>action.ts\<close> removes the index signature and also the export modifier, the
  type parameter and the heritage clause, for it rebuilds the declaration with
  \<^verbatim>\<open>undefined\<close> in their places. The pass of the later script, on the same input, keeps
  them.
\<close>

theorem removeUnknownIndexSignatures_action_drops_interface_header:
  "removeUnknownIndexSignatures ActionTs
     (SourceFile
        [InterfaceDeclaration None (Some [ExportKeyword]) ''PluginList''
           (Some [OtherNode ''TypeParameter'' []])
           (Some [OtherNode ''HeritageClause'' [TypeReference ''Base'' None]])
           [PropertySignature None ''name'' True (Some (Keyword StringKeyword)),
            IndexSignature None None [Parameter ''k'' (Some (Keyword StringKeyword))]
              (Keyword UnknownKeyword)]]) =
   SourceFile
     [InterfaceDeclaration None None ''PluginList'' None None
        [PropertySignature None ''name'' True (Some (Keyword StringKeyword))]]
   \<and> removeUnknownIndexSignatures LaterScript
     (SourceFile
        [InterfaceDeclaration None (Some [ExportKeyword]) ''PluginList''
           (Some [OtherNode ''TypeParameter'' []])
           (Some [OtherNode ''HeritageClause'' [TypeReference ''Base'' None]])
           [PropertySignature None ''name'' True (Some (Keyword StringKeyword)),
            IndexSignature None None [Parameter ''k'' (Some (Keyword StringKeyword))]
              (Keyword UnknownKeyword)]]) =
   SourceFile
     [InterfaceDeclaration None (Some [ExportKeyword]) ''PluginList''
        (Some [OtherNode ''TypeParameter'' []])
        (Some [OtherNode ''HeritageClause'' [TypeReference ''Base'' None]])
        [PropertySignature None ''name'' True (Some (Keyword StringKeyword))]]"
  by (simp add: hasNeighbour_def)

section \<open>Which members \<^verbatim>\<open>removeStandaloneUnknownRecsInUnions\<close> removes from a union\<close>

text \<open>
  C1. The filter of the pass tests the key type of the lone index signature and not its
  value type. On \<^verbatim>\<open>paths?: { [k: string]: string[] } | null\<close> the pass removes the record of
  string arrays and leaves \<^verbatim>\<open>paths?: null\<close>.
\<close>

theorem removeStandaloneUnknownRecs_removes_paths_record:
  "removeStandaloneUnknownRecsInUnions
     (SourceFile
        [InterfaceDeclaration None (Some [ExportKeyword]) ''CompilerOptionsDefinition'' None None
           [PropertySignature None ''paths'' True
              (Some (UnionType
                 [TypeLiteral
                    [IndexSignature None None [Parameter ''k'' (Some (Keyword StringKeyword))]
                       (ArrayType (Keyword StringKeyword))],
                  LiteralType NullLiteral]))]]) =
   SourceFile
     [InterfaceDeclaration None (Some [ExportKeyword]) ''CompilerOptionsDefinition'' None None
        [PropertySignature None ''paths'' True (Some (UnionType [LiteralType NullLiteral]))]]"
  by simp

section \<open>Which shapes \<^verbatim>\<open>removeUnknownIndexSignatures\<close> strips\<close>

text \<open>
  What the \<^verbatim>\<open>reduce\<close> of the visitor keeps: with two or more members every index has a
  neighbour, and the members that are string-keyed index signatures of value type
  \<^verbatim>\<open>unknown\<close> are left out; a single member is kept whatever it is. The members that are
  kept are rewritten by the pass. This is what the visitor does to a shape that it is
  handed.
\<close>

lemma foldl_zip_snd:
  "length is = length xs \<Longrightarrow>
   foldl (\<lambda>acc (i, cur). g acc cur) a (zip is xs) = foldl g a xs"
  by (induction xs arbitrary: "is" a) (auto simp: length_Suc_conv)

lemma foldl_append_keep:
  "foldl (\<lambda>acc cur. if Q cur then acc else acc @ [f cur]) a xs =
   a @ map f (filter (\<lambda>cur. \<not> Q cur) xs)"
  by (induction xs arbitrary: a) auto

lemma hasNeighbour_iff: "i < length members \<Longrightarrow> hasNeighbour members i \<longleftrightarrow> 2 \<le> length members"
  by (auto simp: hasNeighbour_def)

lemma removeUnknownIndexSignatures_reduce_eq:
  "removeUnknownIndexSignatures_reduce v members =
     map (removeUnknownIndexSignatures v)
       (filter (\<lambda>cur. \<not> (isStringUnknownIndexSignature cur \<and> 2 \<le> length members)) members)"
proof -
  have "removeUnknownIndexSignatures_reduce v members =
      foldl (\<lambda>acc (i, cur).
              if isStringUnknownIndexSignature cur \<and> 2 \<le> length members then acc
              else acc @ [removeUnknownIndexSignatures v cur])
       [] (zip [0..<length members] members)"
    unfolding removeUnknownIndexSignatures_reduce.simps
  proof (rule foldl_cong [OF refl refl])
    fix acc x
    assume "x \<in> set (zip [0..<length members] members)"
    then have "fst x \<in> set [0..<length members]"
      by (metis prod.collapse set_zip_leftD)
    then have "fst x < length members" by simp
    then show "(case x of (i, cur) \<Rightarrow>
            if isStringUnknownIndexSignature cur \<and> hasNeighbour members i then acc
            else acc @ [removeUnknownIndexSignatures v cur]) =
          (case x of (i, cur) \<Rightarrow>
            if isStringUnknownIndexSignature cur \<and> 2 \<le> length members then acc
            else acc @ [removeUnknownIndexSignatures v cur])"
      by (cases x) (simp add: hasNeighbour_iff)
  qed
  also have "\<dots> = foldl (\<lambda>acc cur.
              if isStringUnknownIndexSignature cur \<and> 2 \<le> length members then acc
              else acc @ [removeUnknownIndexSignatures v cur]) [] members"
    by (rule foldl_zip_snd) simp
  also have "\<dots> = map (removeUnknownIndexSignatures v)
       (filter (\<lambda>cur. \<not> (isStringUnknownIndexSignature cur \<and> 2 \<le> length members)) members)"
    by (simp add: foldl_append_keep)
  finally show ?thesis .
qed


lemma keep_filter_eq:
  "filter (\<lambda>cur. \<not> (isStringUnknownIndexSignature cur \<and> 2 \<le> length ms)) ms =
   (if 1 < length ms then filter (\<lambda>m. \<not> isStringUnknownIndexSignature m) ms else ms)"
  by (auto intro: filter_cong)

lemma visitor_TypeLiteral:
  "removeUnknownIndexSignatures_visitor v (TypeLiteral ms) =
     TypeLiteral (map (removeUnknownIndexSignatures v)
       (if 1 < length ms then filter (\<lambda>m. \<not> isStringUnknownIndexSignature m) ms else ms))"
  unfolding keep_filter_eq [symmetric] removeUnknownIndexSignatures_reduce_eq [symmetric]
  by (simp del: removeUnknownIndexSignatures_reduce.simps)

lemma visitor_InterfaceDeclaration:
  "removeUnknownIndexSignatures_visitor v (InterfaceDeclaration d m nm tp h ms) =
     (case v of
        ActionTs \<Rightarrow> InterfaceDeclaration None None nm None None
     | LaterScript \<Rightarrow> InterfaceDeclaration d m nm tp h)
     (map (removeUnknownIndexSignatures v)
       (if 1 < length ms then filter (\<lambda>m. \<not> isStringUnknownIndexSignature m) ms else ms))"
  unfolding keep_filter_eq [symmetric] removeUnknownIndexSignatures_reduce_eq [symmetric]
  by (cases v) (simp_all del: removeUnknownIndexSignatures_reduce.simps)



section \<open>Unions below the root alias become intersections\<close>

lemma children_visitEachChild: "children (visitEachChild f n) = map f (children n)"
proof (cases n)
  case (TypeReference nm targs)
  then show ?thesis by (cases targs) simp_all
next
  case (Parameter nm t)
  then show ?thesis by (cases t) simp_all
next
  case (PropertySignature m nm q t)
  then show ?thesis by (cases t) simp_all
next
  case (TypeAliasDeclaration d m nm tp t)
  then show ?thesis by (cases tp) simp_all
next
  case (InterfaceDeclaration d m nm tp h ms)
  then show ?thesis by (cases tp; cases h) simp_all
qed simp_all

lemma isUnionTypeNode_visitEachChild [simp]:
  "isUnionTypeNode (visitEachChild f n) = isUnionTypeNode n"
  by (cases n) simp_all

lemma allUnionsToIntersections_not_union:
  "\<not> isUnionTypeNode n \<Longrightarrow> allUnionsToIntersections n = visitEachChild allUnionsToIntersections n"
  by (cases n) simp_all

lemma visitor_not_union:
  "\<not> isUnionTypeNode n \<Longrightarrow> unionsToIntersections_visitor n = unionsToIntersections n"
  by (cases n) simp_all

lemma noUnionInUnion_child:
  "noUnionInUnion n \<Longrightarrow> c \<in> set (children n) \<Longrightarrow> noUnionInUnion c"
  by (subst (asm) noUnionInUnion.simps) (simp add: list_all_iff)

lemma noUnionInUnion_member:
  "noUnionInUnion (UnionType types) \<Longrightarrow> t \<in> set types \<Longrightarrow> \<not> isUnionTypeNode t"
  by (subst (asm) noUnionInUnion.simps) (simp add: list_all_iff)

lemma unionsToIntersections_visitor_eq_spec:
  "noUnionInUnion n \<Longrightarrow> unionsToIntersections_visitor n = allUnionsToIntersections n"
proof (induction n rule: measure_induct_rule [where f = size])
  case (less n)
  have pass: "unionsToIntersections m = visitEachChild allUnionsToIntersections m"
    if "m = n \<or> m \<in> set (children n)" "noUnionInUnion m" for m
  proof -
    have "visitEachChild unionsToIntersections_visitor m =
          visitEachChild allUnionsToIntersections m"
    proof (rule visitEachChild_cong [OF refl])
      fix c assume c: "c \<in> set (children m)"
      then have "size c < size m" by (rule size_child)
      moreover have "size m \<le> size n"
        using that(1) size_child [of m n] by auto
      ultimately have "size c < size n" by simp
      moreover have "noUnionInUnion c"
        using that(2) c by (rule noUnionInUnion_child)
      ultimately show "unionsToIntersections_visitor c = allUnionsToIntersections c"
        by (rule less.IH)
    qed
    then show ?thesis by (simp only: unionsToIntersections.simps)
  qed
  show ?case
  proof (cases "isUnionTypeNode n")
    case False
    have "unionsToIntersections_visitor n = unionsToIntersections n"
      using False by (rule visitor_not_union)
    also have "\<dots> = visitEachChild allUnionsToIntersections n"
      using less.prems by (intro pass) simp
    also have "\<dots> = allUnionsToIntersections n"
      using False by (rule allUnionsToIntersections_not_union [symmetric])
    finally show ?thesis .
  next
    case True
    then obtain types where n: "n = UnionType types" by (cases n) simp_all
    have "map unionsToIntersections types = map allUnionsToIntersections types"
    proof (rule map_cong [OF refl])
      fix t assume t: "t \<in> set types"
      then have nu: "\<not> isUnionTypeNode t"
        using less.prems n noUnionInUnion_member by blast
      from t have tc: "t \<in> set (children n)" by (simp add: n)
      then have "noUnionInUnion t" using less.prems noUnionInUnion_child by blast
      with tc have "unionsToIntersections t = visitEachChild allUnionsToIntersections t"
        using pass by blast
      also have "\<dots> = allUnionsToIntersections t"
        using nu by (rule allUnionsToIntersections_not_union [symmetric])
      finally show "unionsToIntersections t = allUnionsToIntersections t" .
    qed
    then show ?thesis by (simp add: n)
  qed
qed

lemma unionFree_allUnionsToIntersections: "unionFree (allUnionsToIntersections n)"
proof (induction n rule: measure_induct_rule [where f = size])
  case (less n)
  have kids: "list_all unionFree (map allUnionsToIntersections (children n))"
    using less.IH by (simp add: list_all_iff size_child)
  show ?case
  proof (cases "isUnionTypeNode n")
    case True
    then obtain types where n: "n = UnionType types" by (cases n) simp_all
    show ?thesis
      using kids by (subst unionFree.simps) (simp add: n)
  next
    case False
    then show ?thesis
      using kids
      by (subst unionFree.simps)
        (simp add: allUnionsToIntersections_not_union children_visitEachChild)
  qed
qed


text \<open>
  C6, as the claim states it, fails: \<^verbatim>\<open>unionsToIntersections\<close> visits the children of the
  node it is given and never looks at that node itself, so for
  \<^verbatim>\<open>export type Root = FilesDefinition | IncludeDefinition\<close> the definition is still a union
  after the pass.
\<close>

theorem unionsToIntersections_root_union_counterexample:
  "renameTsconfigTypeForceIntersectionsRemoveOtherExports
     (SourceFile
        [TypeAliasDeclaration None (Some [ExportKeyword]) ''Root'' None
           (UnionType [TypeReference ''FilesDefinition'' None,
                       TypeReference ''IncludeDefinition'' None])]) =
   SourceFile
     [TypeAliasDeclaration None (Some [ExportKeyword]) ''Tsconfig'' None
        (UnionType [TypeReference ''FilesDefinition'' None,
                    TypeReference ''IncludeDefinition'' None])]"
  by (simp add: renameTsconfigTypeForceIntersectionsRemoveOtherExports_def)

text \<open>
  C6, amended. In the later script the root-renaming pass replaces the type \<open>t\<close> of a
  top-level type alias by \<open>t\<close> with every child rewritten by \<open>allUnionsToIntersections\<close>:
  every union type strictly below the definition node has become an intersection type of
  its rewritten members, and no union type is left strictly below the definition node,
  provided that no union type of \<open>t\<close> has a union type as a direct member. The definition
  node itself keeps its kind: it is a union type after the pass if and only if it was one
  before.
\<close>

theorem unionsToIntersections_below_root:
  "(i < length statements \<and> statements ! i = TypeAliasDeclaration d m nm tp t \<and>
    noUnionInUnion t \<longrightarrow>
      children (renameTsconfigTypeForceIntersectionsRemoveOtherExports (SourceFile statements)) ! i =
        TypeAliasDeclaration d m ''Tsconfig'' tp (visitEachChild allUnionsToIntersections t)
      \<and> list_all unionFree (children (visitEachChild allUnionsToIntersections t)))
   \<and> isUnionTypeNode (unionsToIntersections t) = isUnionTypeNode t"
proof (intro conjI impI)
  assume a: "i < length statements \<and> statements ! i = TypeAliasDeclaration d m nm tp t \<and>
    noUnionInUnion t"
  have "visitEachChild unionsToIntersections_visitor t =
        visitEachChild allUnionsToIntersections t"
  proof (rule visitEachChild_cong [OF refl])
    fix c assume "c \<in> set (children t)"
    with a have "noUnionInUnion c" using noUnionInUnion_child by blast
    then show "unionsToIntersections_visitor c = allUnionsToIntersections c"
      by (rule unionsToIntersections_visitor_eq_spec)
  qed
  then have "unionsToIntersections t = visitEachChild allUnionsToIntersections t"
    by (simp only: unionsToIntersections.simps)
  with a show "children (renameTsconfigTypeForceIntersectionsRemoveOtherExports (SourceFile statements)) ! i =
        TypeAliasDeclaration d m ''Tsconfig'' tp (visitEachChild allUnionsToIntersections t)"
    by (simp add: renameTsconfigTypeForceIntersectionsRemoveOtherExports_def
        del: unionsToIntersections.simps)
  show "list_all unionFree (children (visitEachChild allUnionsToIntersections t))"
    by (simp add: children_visitEachChild list_all_iff unionFree_allUnionsToIntersections)
next
  show "isUnionTypeNode (unionsToIntersections t) = isUnionTypeNode t"
    by simp
qed

theorem unionsToIntersections_below_root_witness:
  "renameTsconfigTypeForceIntersectionsRemoveOtherExports
     (SourceFile
        [TypeAliasDeclaration None (Some [ExportKeyword]) ''Root'' None
           (IntersectionType
              [TypeReference ''CompilerOptionsDefinition'' None,
               ParenthesizedType
                 (UnionType [TypeReference ''FilesDefinition'' None,
                             TypeReference ''IncludeDefinition'' None])])]) =
   SourceFile
     [TypeAliasDeclaration None (Some [ExportKeyword]) ''Tsconfig'' None
        (IntersectionType
           [TypeReference ''CompilerOptionsDefinition'' None,
            ParenthesizedType
              (IntersectionType [TypeReference ''FilesDefinition'' None,
                                 TypeReference ''IncludeDefinition'' None])])]
   \<and> list_all unionFree
        [TypeReference ''CompilerOptionsDefinition'' None,
         ParenthesizedType
           (IntersectionType [TypeReference ''FilesDefinition'' None,
                              TypeReference ''IncludeDefinition'' None])]"
proof -
  let ?t = "IntersectionType
              [TypeReference ''CompilerOptionsDefinition'' None,
               ParenthesizedType
                 (UnionType [TypeReference ''FilesDefinition'' None,
                             TypeReference ''IncludeDefinition'' None])]"
  let ?ss = "[TypeAliasDeclaration None (Some [ExportKeyword]) ''Root'' None ?t]"
  have h: "0 < length ?ss \<and> ?ss ! 0 = TypeAliasDeclaration None (Some [ExportKeyword]) ''Root'' None ?t
      \<and> noUnionInUnion ?t"
    by (simp add: noUnionInUnion.simps)
  show ?thesis
    using h unionsToIntersections_below_root
      [of 0 ?ss None "Some [ExportKeyword]" "''Root''" None ?t]
    by (simp add: renameTsconfigTypeForceIntersectionsRemoveOtherExports_def)
qed


section \<open>A wide string inside parentheses\<close>

text \<open>
  C2. \<^verbatim>\<open>removeWideStrings\<close> drops a member of a union or intersection when the member
  itself is the \<^verbatim>\<open>string\<close> keyword; a parenthesized member is replaced by what
  \<^verbatim>\<open>removeWideStrings\<close> returns for its content, which for \<^verbatim>\<open>(string)\<close> is \<^verbatim>\<open>string\<close>. On
  \<^verbatim>\<open>module?: ("CommonJS" | "AMD") & (string)\<close> the pass returns
  \<^verbatim>\<open>("CommonJS" | "AMD") & string\<close>: the wide string is still there. Without the
  parentheses around \<^verbatim>\<open>string\<close> it is removed.
\<close>

theorem removeStringMerged_keeps_parenthesized_string:
  "removeStringMergedWithStringLiterals
     (SourceFile
        [InterfaceDeclaration None (Some [ExportKeyword]) ''CompilerOptionsDefinition'' None None
           [PropertySignature None ''module'' True
              (Some (IntersectionType
                 [ParenthesizedType
                    (UnionType [LiteralType (StringLiteral ''CommonJS''),
                                LiteralType (StringLiteral ''AMD'')]),
                  ParenthesizedType (Keyword StringKeyword)]))]]) =
   SourceFile
     [InterfaceDeclaration None (Some [ExportKeyword]) ''CompilerOptionsDefinition'' None None
        [PropertySignature None ''module'' True
           (Some (IntersectionType
              [UnionType [LiteralType (StringLiteral ''CommonJS''),
                          LiteralType (StringLiteral ''AMD'')],
               Keyword StringKeyword]))]]
   \<and> removeStringMergedWithStringLiterals
     (SourceFile
        [InterfaceDeclaration None (Some [ExportKeyword]) ''CompilerOptionsDefinition'' None None
           [PropertySignature None ''module'' True
              (Some (IntersectionType
                 [ParenthesizedType
                    (UnionType [LiteralType (StringLiteral ''CommonJS''),
                                LiteralType (StringLiteral ''AMD'')]),
                  Keyword StringKeyword]))]]) =
   SourceFile
     [InterfaceDeclaration None (Some [ExportKeyword]) ''CompilerOptionsDefinition'' None None
        [PropertySignature None ''module'' True
           (Some (IntersectionType
              [UnionType [LiteralType (StringLiteral ''CommonJS''),
                          LiteralType (StringLiteral ''AMD'')]]))]]"
  by simp


section \<open>The pipeline applied twice\<close>

text \<open>
  C4, as the claim states it, fails: neither pipeline is idempotent. In the later script
  \<^verbatim>\<open>attachSchemaPropToTopLevel\<close> prepends the \<^verbatim>\<open>$schema\<close> property whether or not the
  interface has one already, so the pipeline applied to its own output yields an interface
  with two \<^verbatim>\<open>$schema\<close> properties. In \<^verbatim>\<open>action.ts\<close> the pipeline turns
  \<^verbatim>\<open>export type Root = "a" | (string)\<close> into \<^verbatim>\<open>"a" | string\<close>, and that into \<^verbatim>\<open>"a"\<close>.
\<close>

theorem transformer_not_idempotent_counterexample:
  "transformer LaterScript
     (SourceFile
        [InterfaceDeclaration None (Some [ExportKeyword]) ''CompilerOptionsDefinition'' None None
           [PropertySignature None ''files'' True (Some (ArrayType (Keyword StringKeyword)))]]) =
   Inr (SourceFile
        [InterfaceDeclaration None (Some [ExportKeyword]) ''CompilerOptionsDefinition'' None None
           [PropertySignature None ''$schema'' True
              (Some (LiteralType (StringLiteral ''https://json.schemastore.org/tsconfig.json''))),
            PropertySignature None ''files'' True (Some (ArrayType (Keyword StringKeyword)))]])
   \<and> transformer LaterScript
     (SourceFile
        [InterfaceDeclaration None (Some [ExportKeyword]) ''CompilerOptionsDefinition'' None None
           [PropertySignature None ''$schema'' True
              (Some (LiteralType (StringLiteral ''https://json.schemastore.org/tsconfig.json''))),
            PropertySignature None ''files'' True (Some (ArrayType (Keyword StringKeyword)))]]) =
   Inr (SourceFile
        [InterfaceDeclaration None (Some [ExportKeyword]) ''CompilerOptionsDefinition'' None None
           [PropertySignature None ''$schema'' True
              (Some (LiteralType (StringLiteral ''https://json.schemastore.org/tsconfig.json''))),
            PropertySignature None ''$schema'' True
              (Some (LiteralType (StringLiteral ''https://json.schemastore.org/tsconfig.json''))),
            PropertySignature None ''files'' True (Some (ArrayType (Keyword StringKeyword)))]])
   \<and> transformer ActionTs
     (SourceFile
        [TypeAliasDeclaration None (Some [ExportKeyword]) ''Root'' None
           (UnionType [LiteralType (StringLiteral ''a''),
                       ParenthesizedType (Keyword StringKeyword)])]) =
   Inr (SourceFile
        [TypeAliasDeclaration None (Some [ExportKeyword]) ''Tsconfig'' None
           (UnionType [LiteralType (StringLiteral ''a''), Keyword StringKeyword])])
   \<and> transformer ActionTs
     (SourceFile
        [TypeAliasDeclaration None (Some [ExportKeyword]) ''Tsconfig'' None
           (UnionType [LiteralType (StringLiteral ''a''), Keyword StringKeyword])]) =
   Inr (SourceFile
        [TypeAliasDeclaration None (Some [ExportKeyword]) ''Tsconfig'' None
           (UnionType [LiteralType (StringLiteral ''a'')])])"
  by (simp add: transformer_def attachSchemaPropToTopLevel_def schemaProp_def
      renameTsconfigTypeAndRemoveOtherExports_def
      renameTsconfigTypeForceIntersectionsRemoveOtherExports_def hasNeighbour_def)

text \<open>
  C4, amended. For every source file and for both copies of the script the pipeline
  returns, without error, a source file that is a function of the input alone: the list of
  the input's top-level statements, each rewritten by the composition of the statement
  visitors of the passes, in the order of the passes. Two runs on the same input therefore
  give the same tree. Nothing is said about the pipeline applied to its own output.
\<close>

theorem transformer_statementwise:
  "transformer ActionTs (SourceFile statements) =
     Inr (SourceFile (map (removeUnknownIndexSignatures_visitor ActionTs \<circ>
                           removeStringMerged_visitor \<circ>
                           removeStandaloneUnknownRecsInUnions \<circ>
                           rename_visitor ActionTs) statements))
   \<and> transformer LaterScript (SourceFile statements) =
     Inr (SourceFile (map (removeUnknownIndexSignatures_visitor LaterScript \<circ>
                           removeStringMerged_visitor \<circ>
                           removeStandaloneUnknownRecsInUnions \<circ>
                           rename_visitor LaterScript \<circ>
                           attachSchemaProp_visitor) statements))"
  by (simp add: transformer_def attachSchemaPropToTopLevel_def
      renameTsconfigTypeAndRemoveOtherExports_def
      renameTsconfigTypeForceIntersectionsRemoveOtherExports_def comp_def)

end
